theory Spec2Isabelle
  imports Main "HOL-Library.Sublist"
begin

section \<open>JavaScript strings and the built-ins that doclint.js calls\<close>

text \<open>
  Strings are lists of \<^typ>\<open>char\<close>. The built-ins are modelled on ASCII text: the
  white space of \<^verbatim>\<open>\s\<close> and of \<^verbatim>\<open>trim\<close> is tab, line feed, vertical tab, form feed,
  carriage return and space, and the case mappings move the 26 ASCII letters and leave
  every other character as it is.
\<close>

definition isWhiteSpace :: "char \<Rightarrow> bool" where
  "isWhiteSpace c =
     (c = CHR 0x09 \<or> c = CHR 0x0A \<or> c = CHR 0x0B \<or> c = CHR 0x0C \<or> c = CHR 0x0D \<or> c = CHR '' '')"

definition lowerLetters :: string where
  "lowerLetters = ''abcdefghijklmnopqrstuvwxyz''"

definition upperLetters :: string where
  "upperLetters = ''ABCDEFGHIJKLMNOPQRSTUVWXYZ''"

definition isLetter :: "char \<Rightarrow> bool" where
  "isLetter c = (c \<in> set lowerLetters \<or> c \<in> set upperLetters)"

definition upperChar :: "char \<Rightarrow> char" where
  "upperChar c = (case map_of (zip lowerLetters upperLetters) c of Some u \<Rightarrow> u | None \<Rightarrow> c)"

definition lowerChar :: "char \<Rightarrow> char" where
  "lowerChar c = (case map_of (zip upperLetters lowerLetters) c of Some l \<Rightarrow> l | None \<Rightarrow> c)"

definition toUpperCase :: "string \<Rightarrow> string" where
  "toUpperCase s = map upperChar s"

definition toLowerCase :: "string \<Rightarrow> string" where
  "toLowerCase s = map lowerChar s"

text \<open>\<^verbatim>\<open>s.trim()\<close>: white space is removed from both ends.\<close>

definition trim :: "string \<Rightarrow> string" where
  "trim s = rev (dropWhile isWhiteSpace (rev (dropWhile isWhiteSpace s)))"

text \<open>
  \<^verbatim>\<open>s.split(/[...]+/)\<close> for a pattern that matches a non-empty run of characters of one
  class. The loop is the one of the language definition: \<open>cur\<close> is the substring between
  the end \<open>p\<close> of the last match and the position \<open>q\<close> that is tried next, the third
  argument is the text from \<open>q\<close> on. A match at \<open>q\<close> is greedy; it closes the current
  substring and moves both positions behind the run. At the end of the text the open
  substring is pushed, so the empty text gives one empty string.
\<close>

function jsSplitLoop :: "(char \<Rightarrow> bool) \<Rightarrow> string \<Rightarrow> string \<Rightarrow> string list" where
  "jsSplitLoop sep cur [] = [cur]"
| "jsSplitLoop sep cur (c # cs) =
     (if sep c then cur # jsSplitLoop sep [] (dropWhile sep cs)
      else jsSplitLoop sep (cur @ [c]) cs)"
  by pat_completeness auto
termination
  by (relation "measure (\<lambda>(sep, cur, s). length s)") (auto simp: length_dropWhile_le le_imp_less_Suc)

definition jsSplit :: "(char \<Rightarrow> bool) \<Rightarrow> string \<Rightarrow> string list" where
  "jsSplit sep s = jsSplitLoop sep [] s"

text \<open>\<^verbatim>\<open>s.includes(t)\<close>: \<open>t\<close> occurs in \<open>s\<close> as a contiguous substring.\<close>

fun includesStr :: "string \<Rightarrow> string \<Rightarrow> bool" where
  "includesStr [] t = (t = [])"
| "includesStr (c # cs) t = (prefix t (c # cs) \<or> includesStr cs t)"

section \<open>Helper functions of doclint.js\<close>

text \<open>
  \<^verbatim>\<open>function isSentenceCase(text)\<close>. The test \<^verbatim>\<open>x[0] === x[0].toUpperCase()\<close> is
  \<open>isCapitalized\<close>; the loop from index 1 is \<open>countCapitalized\<close> on the words after the
  first; \<^verbatim>\<open>capitalizedCount < words.length / 2\<close> compares an integer with a half
  integer, which is \<open>2 * count < length\<close>.
\<close>

definition isCapitalized :: "char \<Rightarrow> bool" where
  "isCapitalized c = ([c] = toUpperCase [c])"

fun countCapitalized :: "string list \<Rightarrow> nat" where
  "countCapitalized [] = 0"
| "countCapitalized (w # ws) =
     (case w of
        [] \<Rightarrow> countCapitalized ws
      | c # _ \<Rightarrow> (if isCapitalized c then Suc (countCapitalized ws) else countCapitalized ws))"

definition isSentenceCase :: "string \<Rightarrow> bool" where
  "isSentenceCase text =
     (case text of
        [] \<Rightarrow> True
      | c # _ \<Rightarrow>
          if \<not> isCapitalized c then False
          else let words = jsSplit isWhiteSpace text in
            if length words \<le> 1 then True
            else 2 * countCapitalized (drop 1 words) < length words)"

text \<open>\<^verbatim>\<open>text.split(/[.!?]+/).map(s => s.trim()).filter(Boolean)\<close>: the only falsy string
  is the empty one.\<close>

definition isTerminator :: "char \<Rightarrow> bool" where
  "isTerminator c = (c = CHR ''.'' \<or> c = CHR ''!'' \<or> c = CHR ''?'')"

definition splitIntoSentences :: "string \<Rightarrow> string list" where
  "splitIntoSentences text = filter (\<lambda>s. s \<noteq> []) (map trim (jsSplit isTerminator text))"

definition countWords :: "string \<Rightarrow> nat" where
  "countWords text = length (filter (\<lambda>w. length w > 0) (jsSplit isWhiteSpace text))"

section \<open>Document tree, configuration and diagnostics\<close>

text \<open>
  A node of the parsed tree: its \<^verbatim>\<open>type\<close>, the start line of its position when it has
  one, the \<^verbatim>\<open>value\<close> of a text node, and its children.
\<close>

datatype node = Node (kind: string) (position: "nat option") (val: string) (children: "node list")

text \<open>
  \<^verbatim>\<open>visit(node, test, visitor)\<close> with a visitor that returns nothing: the nodes that pass
  the test, the root included, in the order in which the visitor is called (preorder).
\<close>

fun visit :: "(node \<Rightarrow> bool) \<Rightarrow> node \<Rightarrow> node list" where
  "visit test (Node k p v cs) =
     (if test (Node k p v cs) then [Node k p v cs] else []) @ concat (map (visit test) cs)"

definition extractText :: "node \<Rightarrow> string" where
  "extractText n = concat (map val (visit (\<lambda>t. kind t = ''text'') n))"

text \<open>\<^verbatim>\<open>node.position?.start.line || 0\<close>\<close>

definition startLine :: "node \<Rightarrow> nat" where
  "startLine n = (case position n of None \<Rightarrow> 0 | Some l \<Rightarrow> (if l = 0 then 0 else l))"

record diagnostic =
  line :: nat
  rule :: string
  severity :: string
  message :: string

text \<open>
  One entry of \<^verbatim>\<open>config.rules\<close>: \<^verbatim>\<open>level\<close>, \<^verbatim>\<open>message\<close> (here \<open>message_of\<close>) and
  \<^verbatim>\<open>args\<close> with its fields \<^verbatim>\<open>min\<close>, \<^verbatim>\<open>limit\<close> and \<^verbatim>\<open>phrases\<close>. A field of \<^verbatim>\<open>args\<close> that is
  absent is \<open>None\<close>.
\<close>

record ruleArgs =
  arg_min :: "int option"
  arg_limit :: "int option"
  arg_phrases :: "string list option"

record ruleConfig =
  level :: string
  message_of :: string
  args :: ruleArgs

text \<open>\<^verbatim>\<open>x || d\<close> on a number that may be absent: absent and 0 are falsy.\<close>

definition orDefault :: "int option \<Rightarrow> int \<Rightarrow> int" where
  "orDefault x d = (case x of None \<Rightarrow> d | Some v \<Rightarrow> (if v = 0 then d else v))"

definition issue :: "node \<Rightarrow> string \<Rightarrow> ruleConfig \<Rightarrow> diagnostic" where
  "issue n r config =
     \<lparr>line = startLine n, rule = r, severity = level config, message = message_of config\<rparr>"

section \<open>Rule implementations\<close>

text \<open>
  Each rule is \<^verbatim>\<open>visit\<close> with a callback that pushes onto \<^verbatim>\<open>issues\<close>. The callback is the
  function with suffix \<open>_at\<close>: what one visited node pushes.
\<close>

definition headingCase_at :: "ruleConfig \<Rightarrow> node \<Rightarrow> diagnostic list" where
  "headingCase_at config headingNode =
     (if \<not> isSentenceCase (extractText headingNode)
      then [issue headingNode ''heading-case'' config] else [])"

definition headingCase :: "node \<Rightarrow> ruleConfig \<Rightarrow> diagnostic list" where
  "headingCase n config =
     concat (map (headingCase_at config) (visit (\<lambda>t. kind t = ''heading'') n))"

definition minimumWordsInSentence_at :: "ruleConfig \<Rightarrow> int \<Rightarrow> node \<Rightarrow> diagnostic list" where
  "minimumWordsInSentence_at config minWords paragraphNode =
     concat (map (\<lambda>sentence.
        let wordCount = countWords sentence in
        if wordCount > 0 \<and> int wordCount < minWords
        then [issue paragraphNode ''minimum-words-in-sentence'' config] else [])
      (splitIntoSentences (extractText paragraphNode)))"

definition minimumWordsInSentence :: "node \<Rightarrow> ruleConfig \<Rightarrow> diagnostic list" where
  "minimumWordsInSentence n config =
     (let minWords = orDefault (arg_min (args config)) 10 in
      concat (map (minimumWordsInSentence_at config minWords)
        (visit (\<lambda>t. kind t = ''paragraph'') n)))"

definition maxWordsInSentence_at :: "ruleConfig \<Rightarrow> int \<Rightarrow> node \<Rightarrow> diagnostic list" where
  "maxWordsInSentence_at config lim paragraphNode =
     concat (map (\<lambda>sentence.
        let wordCount = countWords sentence in
        if int wordCount > lim
        then [issue paragraphNode ''max-words-in-sentence'' config] else [])
      (splitIntoSentences (extractText paragraphNode)))"

definition maxWordsInSentence :: "node \<Rightarrow> ruleConfig \<Rightarrow> diagnostic list" where
  "maxWordsInSentence n config =
     (let lim = orDefault (arg_limit (args config)) 25 in
      concat (map (maxWordsInSentence_at config lim) (visit (\<lambda>t. kind t = ''paragraph'') n)))"

definition maxSentencesInParagraph_at :: "ruleConfig \<Rightarrow> int \<Rightarrow> node \<Rightarrow> diagnostic list" where
  "maxSentencesInParagraph_at config lim paragraphNode =
     (let sentences = splitIntoSentences (extractText paragraphNode) in
      if int (length sentences) > lim
      then [issue paragraphNode ''max-sentences-in-paragraph'' config] else [])"

definition maxSentencesInParagraph :: "node \<Rightarrow> ruleConfig \<Rightarrow> diagnostic list" where
  "maxSentencesInParagraph n config =
     (let lim = orDefault (arg_limit (args config)) 5 in
      concat (map (maxSentencesInParagraph_at config lim)
        (visit (\<lambda>t. kind t = ''paragraph'') n)))"

text \<open>\<^verbatim>\<open>text.includes(phrase.toLowerCase())\<close> on the lower-cased text of the node.\<close>

definition phraseOccurs :: "node \<Rightarrow> string \<Rightarrow> bool" where
  "phraseOccurs textNode phrase =
     includesStr (toLowerCase (extractText textNode)) (toLowerCase phrase)"

definition bannedPhrases_at :: "ruleConfig \<Rightarrow> string list \<Rightarrow> node \<Rightarrow> diagnostic list" where
  "bannedPhrases_at config phrases textNode =
     concat (map (\<lambda>phrase.
        if phraseOccurs textNode phrase
        then [issue textNode ''banned-phrases'' config] else [])
      phrases)"

definition bannedPhrases :: "node \<Rightarrow> ruleConfig \<Rightarrow> diagnostic list" where
  "bannedPhrases n config =
     (let phrases = (case arg_phrases (args config) of None \<Rightarrow> [] | Some ps \<Rightarrow> ps) in
      concat (map (bannedPhrases_at config phrases)
        (visit (\<lambda>t. kind t = ''paragraph'' \<or> kind t = ''heading'') n)))"

section \<open>Running the configured rules\<close>

text \<open>
  \<^verbatim>\<open>const rules = { headingCase: ..., ... }\<close>: the five own properties of the table.
\<close>

definition rules :: "string \<Rightarrow> (node \<Rightarrow> ruleConfig \<Rightarrow> diagnostic list) option" where
  "rules ruleName =
     (if ruleName = ''headingCase'' then Some headingCase
      else if ruleName = ''minimumWordsInSentence'' then Some minimumWordsInSentence
      else if ruleName = ''maxWordsInSentence'' then Some maxWordsInSentence
      else if ruleName = ''maxSentencesInParagraph'' then Some maxSentencesInParagraph
      else if ruleName = ''bannedPhrases'' then Some bannedPhrases
      else None)"

text \<open>
  The table is an object literal, so \<^verbatim>\<open>rules[ruleName]\<close> also finds the members that
  every object inherits from \<^verbatim>\<open>Object.prototype\<close>; all of them are truthy. For such a name
  \<open>inheritedCall\<close> gives the outcome of
  \<^verbatim>\<open>allIssues.push(...rules[ruleName](ast, ruleConfig))\<close>:
  \<^item> \<^verbatim>\<open>toString\<close> and \<^verbatim>\<open>toLocaleString\<close> return the string \<^verbatim>\<open>[object Object]\<close>, and
    spreading a string pushes its characters, each a string of length one;
  \<^item> \<^verbatim>\<open>constructor\<close> returns the tree and \<^verbatim>\<open>valueOf\<close> the table, \<^verbatim>\<open>hasOwnProperty\<close>,
    \<^verbatim>\<open>isPrototypeOf\<close> and \<^verbatim>\<open>propertyIsEnumerable\<close> return \<^verbatim>\<open>false\<close>, \<^verbatim>\<open>__lookupGetter__\<close>
    and \<^verbatim>\<open>__lookupSetter__\<close> return \<^verbatim>\<open>undefined\<close>: none of these values is iterable,
    and spreading it throws a TypeError;
  \<^item> \<^verbatim>\<open>__defineGetter__\<close> and \<^verbatim>\<open>__defineSetter__\<close> throw a TypeError, since the rule
    configuration is not callable, and \<^verbatim>\<open>__proto__\<close> is an object, not a function, so
    calling it throws a TypeError.
  For every other name the lookup is \<^verbatim>\<open>undefined\<close>.
\<close>

datatype js_error = TypeError

definition inheritedCall :: "string \<Rightarrow> (js_error + string) option" where
  "inheritedCall ruleName =
     (if ruleName = ''toString'' \<or> ruleName = ''toLocaleString''
      then Some (Inr ''[object Object]'')
      else if ruleName = ''constructor'' \<or> ruleName = ''valueOf''
        \<or> ruleName = ''hasOwnProperty'' \<or> ruleName = ''isPrototypeOf''
        \<or> ruleName = ''propertyIsEnumerable''
        \<or> ruleName = ''__lookupGetter__'' \<or> ruleName = ''__lookupSetter__''
        \<or> ruleName = ''__defineGetter__'' \<or> ruleName = ''__defineSetter__''
        \<or> ruleName = ''__proto__''
      then Some (Inl TypeError)
      else None)"

text \<open>What \<^verbatim>\<open>allIssues\<close> can hold: a diagnostic, or a string pushed by an inherited member.\<close>

datatype item = Issue diagnostic | Str string

text \<open>
  \<^verbatim>\<open>config.rules\<close> is given as \<^verbatim>\<open>Object.entries\<close> lists it. The loop of \<^verbatim>\<open>lintFile\<close>:
\<close>

fun lintLoop :: "node \<Rightarrow> (string \<times> ruleConfig) list \<Rightarrow> item list \<Rightarrow> js_error + item list" where
  "lintLoop ast [] allIssues = Inr allIssues"
| "lintLoop ast ((ruleName, ruleConfig) # rest) allIssues =
     (case rules ruleName of
        Some evaluator \<Rightarrow> lintLoop ast rest (allIssues @ map Issue (evaluator ast ruleConfig))
      | None \<Rightarrow>
          (case inheritedCall ruleName of
             None \<Rightarrow> lintLoop ast rest allIssues
           | Some (Inl e) \<Rightarrow> Inl e
           | Some (Inr s) \<Rightarrow> lintLoop ast rest (allIssues @ map (\<lambda>c. Str [c]) s)))"

text \<open>
  \<^verbatim>\<open>(a, b) => a.line - b.line\<close>: a string has no \<^verbatim>\<open>line\<close>, and a difference with
  \<^verbatim>\<open>undefined\<close> is NaN, here \<open>None\<close>.
\<close>

definition compareLines :: "item \<Rightarrow> item \<Rightarrow> int option" where
  "compareLines a b =
     (case a of
        Issue x \<Rightarrow> (case b of Issue y \<Rightarrow> Some (int (line x) - int (line y)) | Str _ \<Rightarrow> None)
      | Str _ \<Rightarrow> None)"

text \<open>
  \<^verbatim>\<open>Array.prototype.sort(comparefn)\<close>: the sort is stable and reads a NaN from the
  comparison as 0. For a consistent comparison the result is determined by that; for an
  inconsistent one the language leaves the order to the implementation, and the model
  inserts each element before the first later element that it does not exceed.
\<close>

definition sortCompare :: "('a \<Rightarrow> 'a \<Rightarrow> int option) \<Rightarrow> 'a \<Rightarrow> 'a \<Rightarrow> int" where
  "sortCompare comparefn x y = (case comparefn x y of None \<Rightarrow> 0 | Some v \<Rightarrow> v)"

fun insertInOrder :: "('a \<Rightarrow> 'a \<Rightarrow> int option) \<Rightarrow> 'a \<Rightarrow> 'a list \<Rightarrow> 'a list" where
  "insertInOrder comparefn x [] = [x]"
| "insertInOrder comparefn x (y # ys) =
     (if sortCompare comparefn x y \<le> 0 then x # y # ys
      else y # insertInOrder comparefn x ys)"

definition jsSort :: "('a \<Rightarrow> 'a \<Rightarrow> int option) \<Rightarrow> 'a list \<Rightarrow> 'a list" where
  "jsSort comparefn xs = foldr (insertInOrder comparefn) xs []"

record lintConfig =
  config_rules :: "(string \<times> ruleConfig) list"
  config_format :: string

text \<open>\<^verbatim>\<open>lintFile\<close> from the parsed tree on; reading and parsing the file is outside.\<close>

definition lintFile :: "node \<Rightarrow> lintConfig \<Rightarrow> js_error + item list" where
  "lintFile ast config =
     (case lintLoop ast (config_rules config) [] of
        Inl e \<Rightarrow> Inl e
      | Inr allIssues \<Rightarrow> Inr (jsSort compareLines allIssues))"

section \<open>Formatting\<close>

text \<open>\<^verbatim>\<open>path.basename\<close> for POSIX paths: trailing slashes are dropped, then the part after
  the last slash is taken.\<close>

definition basename :: "string \<Rightarrow> string" where
  "basename p =
     rev (takeWhile (\<lambda>c. c \<noteq> CHR ''/'') (dropWhile (\<lambda>c. c = CHR ''/'') (rev p)))"

text \<open>A number in a template literal: its decimal digits.\<close>

definition digit :: "nat \<Rightarrow> char" where
  "digit d = ''0123456789'' ! d"

fun showNat :: "nat \<Rightarrow> string" where
  "showNat n = (if n < 10 then [digit n] else showNat (n div 10) @ [digit (n mod 10)])"

fun join :: "string \<Rightarrow> string list \<Rightarrow> string" where
  "join sep [] = []"
| "join sep [x] = x"
| "join sep (x # y # ys) = x @ sep @ join sep (y # ys)"

text \<open>
  The template literal of the text format. A property that a string does not have is
  \<^verbatim>\<open>undefined\<close> and prints as that word.
\<close>

definition textLine :: "string \<Rightarrow> item \<Rightarrow> string" where
  "textLine fileName i =
     (case i of
        Issue d \<Rightarrow>
          fileName @ '':'' @ showNat (line d) @ '': '' @ message d
            @ '' ['' @ rule d @ ''] ['' @ severity d @ '']''
      | Str _ \<Rightarrow> fileName @ '':undefined: undefined [undefined] [undefined]'')"

text \<open>
  \<^verbatim>\<open>formatOutput\<close> returns a string for the format \<^verbatim>\<open>text\<close> and the array it was given
  otherwise. It has no \<^verbatim>\<open>throw\<close> and calls nothing that throws on a string path, so the
  result is always \<open>Inr\<close>.
\<close>

datatype report = Text string | Records "item list"

definition formatOutput :: "string \<Rightarrow> item list \<Rightarrow> string \<Rightarrow> js_error + report" where
  "formatOutput filePath issues fmt =
     (let fileName = basename filePath in
      if fmt = ''text'' then Inr (Text (join [CHR 0x0A] (map (textLine fileName) issues)))
      else Inr (Records issues))"

text \<open>
  What the caller's \<^verbatim>\<open>JSON.stringify\<close> writes for the array: an object with the own
  properties of a diagnostic in the order of the object literal, a string as a string.
\<close>

datatype json = JNumber nat | JString string | JObject "(string \<times> json) list" | JArray "json list"

definition toJson :: "item \<Rightarrow> json" where
  "toJson i =
     (case i of
        Issue d \<Rightarrow>
          JObject [(''line'', JNumber (line d)), (''rule'', JString (rule d)),
                   (''severity'', JString (severity d)), (''message'', JString (message d))]
      | Str s \<Rightarrow> JString s)"

definition stringify :: "report \<Rightarrow> json" where
  "stringify r = (case r of Text s \<Rightarrow> JString s | Records issues \<Rightarrow> JArray (map toJson issues))"

section \<open>The specification's wording of the sentence split\<close>

text \<open>
  Following the words of the specification, not the code: a text is split on runs of one
  or more separator characters. The first segment is the text before the first
  separator; the run of separators that follows is skipped as a whole; the rest is split
  in the same way. A text with no separator is one segment.
\<close>

function spec_segments :: "(char \<Rightarrow> bool) \<Rightarrow> string \<Rightarrow> string list" where
  "spec_segments sep s =
     (let rest = dropWhile (\<lambda>c. \<not> sep c) s in
      takeWhile (\<lambda>c. \<not> sep c) s
        # (if rest = [] then [] else spec_segments sep (dropWhile sep rest)))"
  by pat_completeness auto
termination
proof (relation "measure (\<lambda>(sep, s). length s)")
  show "wf (measure (\<lambda>(sep, s). length s))" by simp
next
  fix sep :: "char \<Rightarrow> bool" and s rest :: string
  assume r: "rest = dropWhile (\<lambda>c. \<not> sep c) s" and ne: "rest \<noteq> []"
  from ne obtain x xs where rx: "rest = x # xs" by (cases rest) auto
  with r have "sep x" by (metis (mono_tags, lifting) hd_dropWhile list.sel(1) ne)
  hence "length (dropWhile sep rest) \<le> length xs" by (simp add: rx length_dropWhile_le)
  moreover have "length rest \<le> length s" by (simp add: r length_dropWhile_le)
  ultimately show "((sep, dropWhile sep rest), (sep, s)) \<in> measure (\<lambda>(sep, s). length s)"
    by (simp add: rx)
qed

text \<open>
  The diagnostics of the configured rules that the table has, in the order of the
  configuration, before sorting.
\<close>

definition collect :: "node \<Rightarrow> (string \<times> ruleConfig) list \<Rightarrow> diagnostic list" where
  "collect ast rs =
     concat (map (\<lambda>(ruleName, ruleConfig).
        case rules ruleName of None \<Rightarrow> [] | Some evaluator \<Rightarrow> evaluator ast ruleConfig) rs)"

section \<open>Example inputs\<close>


definition exampleRule :: "string list option \<Rightarrow> ruleConfig" where
  "exampleRule ps =
     \<lparr>level = ''error'', message_of = ''Found.'',
      args = \<lparr>arg_min = None, arg_limit = None, arg_phrases = ps\<rparr>\<rparr>"

definition deprecated :: node where
  "deprecated = Node ''paragraph'' (Some 4) []
     [Node ''text'' (Some 4) ''This feature has been deprecated.'' []]"


definition headingThenParagraph :: node where
  "headingThenParagraph = Node ''root'' None []
     [Node ''heading'' (Some 1) [] [Node ''text'' (Some 1) ''a'' []],
      Node ''paragraph'' (Some 3) [] [Node ''text'' (Some 3) ''x'' []]]"

definition headingIssue :: item where
  "headingIssue = Issue \<lparr>line = 12, rule = ''heading-case'', severity = ''warning'',
     message = ''Heading should be in sentence case.''\<rparr>"

section \<open>Splitting and trimming\<close>

declare spec_segments.simps [simp del]








text \<open>Nothing but separators is lost: the segments together are the other characters.\<close>

lemma concat_segments: "concat (spec_segments sep s) = filter (\<lambda>c. \<not> sep c) s"
proof (induction sep s rule: spec_segments.induct)
  case (1 sep s)
  let ?rest = "dropWhile (\<lambda>c. \<not> sep c) s"
  have s: "s = takeWhile (\<lambda>c. \<not> sep c) s @ ?rest" by simp
  show ?case
  proof (cases "?rest = []")
    case True
    then show ?thesis by (subst spec_segments.simps) (simp add: Let_def)
  next
    case False
    have "filter (\<lambda>c. \<not> sep c) s
        = takeWhile (\<lambda>c. \<not> sep c) s @ filter (\<lambda>c. \<not> sep c) ?rest"
      by (subst s, simp only: filter_append) (auto simp: filter_id_conv dest: set_takeWhileD)
    also have "?rest = takeWhile sep ?rest @ dropWhile sep ?rest" by simp
    also have "filter (\<lambda>c. \<not> sep c) (takeWhile sep ?rest @ dropWhile sep ?rest)
        = filter (\<lambda>c. \<not> sep c) (dropWhile sep ?rest)"
      by (simp only: filter_append) (auto simp: filter_empty_conv dest: set_takeWhileD)
    finally show ?thesis
      using False "1.IH" [OF refl False]
      by (subst spec_segments.simps) (auto simp: Let_def)
  qed
qed







section \<open>Sentence case\<close>




lemma whitespace_not_letter: "isWhiteSpace c \<Longrightarrow> \<not> isLetter c"
  by (auto simp: isWhiteSpace_def isLetter_def lowerLetters_def upperLetters_def)








section \<open>Properties of the rules\<close>


text \<open>The callbacks read the level and the message of the configuration, nothing else.\<close>

lemma minimumWordsInSentence_at_config:
  assumes "level c = level c'" and "message_of c = message_of c'"
  shows "minimumWordsInSentence_at c m = minimumWordsInSentence_at c' m"
  unfolding minimumWordsInSentence_at_def [abs_def] issue_def assms by (rule refl)

lemma maxWordsInSentence_at_config:
  assumes "level c = level c'" and "message_of c = message_of c'"
  shows "maxWordsInSentence_at c m = maxWordsInSentence_at c' m"
  unfolding maxWordsInSentence_at_def [abs_def] issue_def assms by (rule refl)

lemma maxSentencesInParagraph_at_config:
  assumes "level c = level c'" and "message_of c = message_of c'"
  shows "maxSentencesInParagraph_at c m = maxSentencesInParagraph_at c' m"
  unfolding maxSentencesInParagraph_at_def [abs_def] issue_def assms by (rule refl)

lemma minimumWordsInSentence_at_args:
  "minimumWordsInSentence_at (c\<lparr>args := a\<rparr>) m = minimumWordsInSentence_at c m"
  by (rule minimumWordsInSentence_at_config) simp_all

lemma maxWordsInSentence_at_args:
  "maxWordsInSentence_at (c\<lparr>args := a\<rparr>) m = maxWordsInSentence_at c m"
  by (rule maxWordsInSentence_at_config) simp_all

lemma maxSentencesInParagraph_at_args:
  "maxSentencesInParagraph_at (c\<lparr>args := a\<rparr>) m = maxSentencesInParagraph_at c m"
  by (rule maxSentencesInParagraph_at_config) simp_all

text \<open>
  C8. A configuration whose \<^verbatim>\<open>args.min\<close> (minimum-words-in-sentence) or \<^verbatim>\<open>args.limit\<close>
  (max-words-in-sentence, max-sentences-in-paragraph) is present and equal to 0 gives, on
  every tree, the diagnostics of the same configuration with the field absent, which are
  those of the field set to the default: 10, 25 and 5.
\<close>

theorem zero_argument_is_default:
  "minimumWordsInSentence n (config\<lparr>args := (args config)\<lparr>arg_min := Some 0\<rparr>\<rparr>)
     = minimumWordsInSentence n (config\<lparr>args := (args config)\<lparr>arg_min := None\<rparr>\<rparr>)
   \<and> minimumWordsInSentence n (config\<lparr>args := (args config)\<lparr>arg_min := Some 0\<rparr>\<rparr>)
     = minimumWordsInSentence n (config\<lparr>args := (args config)\<lparr>arg_min := Some 10\<rparr>\<rparr>)
   \<and> maxWordsInSentence n (config\<lparr>args := (args config)\<lparr>arg_limit := Some 0\<rparr>\<rparr>)
     = maxWordsInSentence n (config\<lparr>args := (args config)\<lparr>arg_limit := None\<rparr>\<rparr>)
   \<and> maxWordsInSentence n (config\<lparr>args := (args config)\<lparr>arg_limit := Some 0\<rparr>\<rparr>)
     = maxWordsInSentence n (config\<lparr>args := (args config)\<lparr>arg_limit := Some 25\<rparr>\<rparr>)
   \<and> maxSentencesInParagraph n (config\<lparr>args := (args config)\<lparr>arg_limit := Some 0\<rparr>\<rparr>)
     = maxSentencesInParagraph n (config\<lparr>args := (args config)\<lparr>arg_limit := None\<rparr>\<rparr>)
   \<and> maxSentencesInParagraph n (config\<lparr>args := (args config)\<lparr>arg_limit := Some 0\<rparr>\<rparr>)
     = maxSentencesInParagraph n (config\<lparr>args := (args config)\<lparr>arg_limit := Some 5\<rparr>\<rparr>)"
  by (simp add: minimumWordsInSentence_def maxWordsInSentence_def maxSentencesInParagraph_def
      orDefault_def minimumWordsInSentence_at_args maxWordsInSentence_at_args
      maxSentencesInParagraph_at_args)














section \<open>Order of the diagnostics\<close>

lemma insertInOrder_Issue:
  "insertInOrder compareLines (Issue d) (map Issue ds) = map Issue (insort_key line d ds)"
  by (induction ds) (auto simp: sortCompare_def compareLines_def)

lemma jsSort_Issue: "jsSort compareLines (map Issue ds) = map Issue (sort_key line ds)"
  by (induction ds) (simp_all add: jsSort_def sort_key_def insertInOrder_Issue)

lemma lintLoop_collect:
  assumes "\<And>ruleName ruleConfig. (ruleName, ruleConfig) \<in> set rs \<Longrightarrow> rules ruleName = None
     \<Longrightarrow> inheritedCall ruleName = None"
  shows "lintLoop ast rs acc = Inr (acc @ map Issue (collect ast rs))"
  using assms
proof (induction rs arbitrary: acc)
  case Nil
  show ?case by (simp add: collect_def)
next
  case (Cons r rs)
  obtain ruleName ruleConfig where r: "r = (ruleName, ruleConfig)" by (cases r)
  have IH: "lintLoop ast rs acc' = Inr (acc' @ map Issue (collect ast rs))" for acc'
  proof (rule Cons.IH)
    fix n c assume "(n, c) \<in> set rs" and "rules n = None"
    then show "inheritedCall n = None" using Cons.prems [of n c] by simp
  qed
  show ?case
  proof (cases "rules ruleName")
    case None
    with Cons.prems [of ruleName ruleConfig] r have "inheritedCall ruleName = None" by simp
    with None show ?thesis by (simp add: r IH collect_def)
  next
    case (Some evaluator)
    then show ?thesis by (simp add: r IH collect_def)
  qed
qed

text \<open>
  As long as no configured name is a member that the table inherits, \<open>lintFile\<close> returns
  the collected diagnostics sorted by line, and the diagnostics of one line keep the
  order in which they were collected, which is the order of the rules in the
  configuration.
\<close>

lemma lintFile_sorted_stable:
  assumes "\<And>ruleName ruleConfig. (ruleName, ruleConfig) \<in> set (config_rules config)
     \<Longrightarrow> rules ruleName = None \<Longrightarrow> inheritedCall ruleName = None"
  shows "lintFile ast config = Inr (map Issue (sort_key line (collect ast (config_rules config))))"
    and "sorted (map line (sort_key line (collect ast (config_rules config))))"
    and "filter (\<lambda>d. line d = k) (sort_key line (collect ast (config_rules config)))
       = filter (\<lambda>d. line d = k) (collect ast (config_rules config))"
proof -
  show "lintFile ast config = Inr (map Issue (sort_key line (collect ast (config_rules config))))"
    using lintLoop_collect [of "config_rules config" ast "[]", OF assms]
    by (simp add: lintFile_def jsSort_Issue)
  show "sorted (map line (sort_key line (collect ast (config_rules config))))"
    by (rule sorted_sort_key)
  show "filter (\<lambda>d. line d = k) (sort_key line (collect ast (config_rules config)))
       = filter (\<lambda>d. line d = k) (collect ast (config_rules config))"
    by (rule sort_key_stable)
qed

text \<open>
  C1, at a configuration that lists \<^verbatim>\<open>toString\<close> between two rules. On a heading in line
  1 and a paragraph in line 3, banned-phrases reports line 3, the inherited member pushes
  the fifteen characters of \<^verbatim>\<open>[object Object]\<close>, heading-case reports line 1. Every
  comparison with a character is NaN, so nothing is moved: the returned sequence has the
  diagnostic of line 3 before the diagnostic of line 1, with the characters in between.
\<close>

theorem lintFile_order_lost:
  "lintFile headingThenParagraph
     \<lparr>config_rules = [(''bannedPhrases'', exampleRule (Some [''x''])),
                      (''toString'', exampleRule None),
                      (''headingCase'', exampleRule None)],
      config_format = ''text''\<rparr>
   = Inr ([Issue \<lparr>line = 3, rule = ''banned-phrases'', severity = ''error'', message = ''Found.''\<rparr>]
        @ map (\<lambda>c. Str [c]) ''[object Object]''
        @ [Issue \<lparr>line = 1, rule = ''heading-case'', severity = ''error'', message = ''Found.''\<rparr>])"
  by code_simp

section \<open>Rule names without an evaluator\<close>

lemma lintLoop_append:
  "lintLoop ast (xs @ ys) acc =
     (case lintLoop ast xs acc of Inl e \<Rightarrow> Inl e | Inr a \<Rightarrow> lintLoop ast ys a)"
  by (induction ast xs acc rule: lintLoop.induct) (auto split: option.splits sum.splits)

text \<open>A name for which the lookup is \<^verbatim>\<open>undefined\<close> is skipped: the entry can be removed.\<close>

lemma lintFile_skips_undefined:
  assumes "rules ruleName = None" and "inheritedCall ruleName = None"
  shows "lintFile ast (config\<lparr>config_rules := before @ (ruleName, ruleConfig) # after\<rparr>)
       = lintFile ast (config\<lparr>config_rules := before @ after\<rparr>)"
  using assms by (simp add: lintFile_def lintLoop_append split: sum.splits)

text \<open>
  C7, at the names \<^verbatim>\<open>toString\<close> and \<^verbatim>\<open>constructor\<close>, which the table of evaluators does
  not have. With the one entry \<^verbatim>\<open>toString\<close> the result is the fifteen characters of
  \<^verbatim>\<open>[object Object]\<close>, not the empty result of the configuration without the entry; with
  the one entry \<^verbatim>\<open>constructor\<close> a TypeError is thrown.
\<close>

theorem lintFile_inherited_name_not_skipped:
  "rules ''toString'' = None
   \<and> lintFile deprecated \<lparr>config_rules = [(''toString'', exampleRule None)], config_format = ''text''\<rparr>
       = Inr (map (\<lambda>c. Str [c]) ''[object Object]'')
   \<and> lintFile deprecated \<lparr>config_rules = [], config_format = ''text''\<rparr> = Inr []
   \<and> rules ''constructor'' = None
   \<and> lintFile deprecated \<lparr>config_rules = [(''constructor'', exampleRule None)], config_format = ''text''\<rparr>
       = Inl TypeError"
  by (simp add: rules_def inheritedCall_def lintFile_def jsSort_def sortCompare_def compareLines_def)

section \<open>Formats\<close>

text \<open>
  The claim C2 at the format \<^verbatim>\<open>xml\<close>, which is neither \<^verbatim>\<open>text\<close> nor \<^verbatim>\<open>json\<close>: formatting
  returns the array, it does not fail.
\<close>

theorem formatOutput_unknown_format_returns:
  "formatOutput ''notes.md'' [headingIssue] ''xml'' = Inr (Records [headingIssue])"
  by (simp add: formatOutput_def)

text \<open>
  C2, amended. For every format other than \<^verbatim>\<open>text\<close>, \<^verbatim>\<open>json\<close> and unknown values alike,
  formatting raises no error and returns the diagnostic sequence as it is.
\<close>

theorem formatOutput_not_text:
  "fmt \<noteq> ''text'' \<Longrightarrow> formatOutput filePath issues fmt = Inr (Records issues)"
  by (simp add: formatOutput_def)

lemma yaml_not_text: "''yaml'' \<noteq> ''text''"
  by simp

text \<open>The format \<^verbatim>\<open>yaml\<close>.\<close>

theorem formatOutput_not_text_witness:
  "''yaml'' \<noteq> ''text'' \<and> formatOutput ''notes.md'' [] ''yaml'' = Inr (Records [])"
  by (rule conjI [OF yaml_not_text formatOutput_not_text [OF yaml_not_text]])

text \<open>
  C3, at one diagnostic and the path \<^verbatim>\<open>docs/file.md\<close>. The \<^verbatim>\<open>json\<close> format returns the
  diagnostic as the rule made it, and what is serialised is a flat array of one object
  with the properties \<^verbatim>\<open>line\<close>, \<^verbatim>\<open>rule\<close>, \<^verbatim>\<open>severity\<close> and \<^verbatim>\<open>message\<close>: there is no
  \<^verbatim>\<open>file\<close>. The \<^verbatim>\<open>text\<close> format of the same diagnostic begins with the file name.
\<close>

theorem formatOutput_json_without_file:
  "formatOutput ''docs/file.md'' [headingIssue] ''json'' = Inr (Records [headingIssue])
   \<and> stringify (Records [headingIssue]) =
       JArray [JObject [(''line'', JNumber 12), (''rule'', JString ''heading-case''),
         (''severity'', JString ''warning''),
         (''message'', JString ''Heading should be in sentence case.'')]]
   \<and> formatOutput ''docs/file.md'' [headingIssue] ''text'' =
       Inr (Text ''file.md:12: Heading should be in sentence case. [heading-case] [warning]'')"
  by (simp add: formatOutput_def stringify_def toJson_def headingIssue_def basename_def
      textLine_def digit_def)

end
